theory Spec2Isabelle
  imports Complex_Main "HOL-Library.Word"
begin

section \<open>Doubles\<close>

text \<open>
  A C double (IEEE 754 binary64) is not-a-number, one of the two infinities, or a finite
  real number. The result of every arithmetic operation is rounded to the nearest double,
  ties to the even significand, and overflows to an infinity. The comparisons \<open>==\<close>,
  \<open><\<close>, \<open>>\<close> are false as soon as one operand is not a number. The two zeros are
  identified: the sources never divide by a zero without testing for it first.
\<close>

datatype dbl = NaN | PInf | MInf | Fin real

text \<open>Rounding to the nearest integer, a tie to the even one.\<close>

definition round_half_even :: "real \<Rightarrow> int" where
  "round_half_even r =
     (let f = \<lfloor>r\<rfloor>; d = r - of_int f
      in if d < 1 / 2 then f
         else if 1 / 2 < d then f + 1
         else if even f then f else f + 1)"

text \<open>
  The binary exponent of the format at \<open>x\<close>: that of \<open>x\<close> itself, and \<open>-1022\<close> in the
  subnormal range.
\<close>

definition binade :: "real \<Rightarrow> int" where
  "binade x = max \<lfloor>log 2 \<bar>x\<bar>\<rfloor> (- 1022)"

definition overflow_threshold :: real where
  "overflow_threshold = 2 ^ 1024"

text \<open>
  The double nearest to a real: a multiple of the unit in the last place of the binade
  (53 significant bits), or an infinity when that multiple is out of range.
\<close>

definition rnd :: "real \<Rightarrow> dbl" where
  "rnd x =
     (if x = 0 then Fin 0
      else let q = 2 powr of_int (binade x - 52);
               y = of_int (round_half_even (x / q)) * q
           in if overflow_threshold \<le> y then PInf
              else if y \<le> - overflow_threshold then MInf
              else Fin y)"

text \<open>The reals that are doubles: a significand below \<open>2^53\<close> and an exponent in range.\<close>

definition representable :: "real \<Rightarrow> bool" where
  "representable x =
     (\<exists>m e :: int. \<bar>m\<bar> < 2 ^ 53 \<and> - 1074 \<le> e \<and> e \<le> 971 \<and> x = of_int m * 2 powr of_int e)"

fun isnan :: "dbl \<Rightarrow> bool" where
  "isnan NaN = True"
| "isnan a = False"

fun is_finite :: "dbl \<Rightarrow> bool" where
  "is_finite (Fin a) = True"
| "is_finite a = False"

fun deq :: "dbl \<Rightarrow> dbl \<Rightarrow> bool" where
  "deq (Fin a) (Fin b) = (a = b)"
| "deq PInf PInf = True"
| "deq MInf MInf = True"
| "deq a b = False"

fun dlt :: "dbl \<Rightarrow> dbl \<Rightarrow> bool" where
  "dlt (Fin a) (Fin b) = (a < b)"
| "dlt MInf (Fin b) = True"
| "dlt MInf PInf = True"
| "dlt (Fin a) PInf = True"
| "dlt a b = False"

definition dgt :: "dbl \<Rightarrow> dbl \<Rightarrow> bool" where
  "dgt a b = dlt b a"

text \<open>The infinity of a given sign; not a number for the sign of zero.\<close>

definition signed_inf :: "real \<Rightarrow> dbl" where
  "signed_inf s = (if 0 < s then PInf else if s < 0 then MInf else NaN)"

fun dsign :: "dbl \<Rightarrow> real" where
  "dsign (Fin a) = sgn a"
| "dsign PInf = 1"
| "dsign MInf = - 1"
| "dsign NaN = 0"

fun dneg :: "dbl \<Rightarrow> dbl" where
  "dneg (Fin a) = Fin (- a)"
| "dneg PInf = MInf"
| "dneg MInf = PInf"
| "dneg NaN = NaN"

fun fabs :: "dbl \<Rightarrow> dbl" where
  "fabs (Fin a) = Fin \<bar>a\<bar>"
| "fabs PInf = PInf"
| "fabs MInf = PInf"
| "fabs NaN = NaN"

fun dadd :: "dbl \<Rightarrow> dbl \<Rightarrow> dbl" where
  "dadd (Fin a) (Fin b) = rnd (a + b)"
| "dadd NaN b = NaN"
| "dadd a NaN = NaN"
| "dadd PInf MInf = NaN"
| "dadd MInf PInf = NaN"
| "dadd (Fin a) b = b"
| "dadd a b = a"

definition dsub :: "dbl \<Rightarrow> dbl \<Rightarrow> dbl" where
  "dsub a b = dadd a (dneg b)"

fun dmul :: "dbl \<Rightarrow> dbl \<Rightarrow> dbl" where
  "dmul (Fin a) (Fin b) = rnd (a * b)"
| "dmul NaN b = NaN"
| "dmul a NaN = NaN"
| "dmul a b = signed_inf (dsign a * dsign b)"

text \<open>The quotient of two doubles as the hardware computes it.\<close>

fun quot :: "dbl \<Rightarrow> dbl \<Rightarrow> dbl" where
  "quot (Fin a) (Fin b) = (if b = 0 then signed_inf a else rnd (a / b))"
| "quot NaN b = NaN"
| "quot a NaN = NaN"
| "quot (Fin a) b = Fin 0"
| "quot a (Fin b) = signed_inf (dsign a * (if b < 0 then - 1 else 1))"
| "quot a b = NaN"

fun dsqrt :: "dbl \<Rightarrow> dbl" where
  "dsqrt (Fin a) = (if a < 0 then NaN else rnd (sqrt a))"
| "dsqrt PInf = PInf"
| "dsqrt a = NaN"



datatype error = ValueError | ZeroDivisionError

text \<open>
  The \<open>/\<close> of the \<open>.pyx\<close> sources. The \<open>cdivision\<close> directive is switched off in
  \<open>idealsurface.pyx\<close> (it is commented out above \<open>propagate\<close>), so a divisor that
  compares equal to zero is the error \<open>ZeroDivisionError\<close> and not a quotient.
\<close>

definition ddiv :: "dbl \<Rightarrow> dbl \<Rightarrow> error + dbl" where
  "ddiv a b = (if deq b (Fin 0) then Inl ZeroDivisionError else Inr (quot a b))"

section \<open>Vectors and rays\<close>

datatype Vector3d = Vec (v0: dbl) (v1: dbl) (v2: dbl)

definition assign_nan_to_vector3d :: Vector3d where
  "assign_nan_to_vector3d = Vec NaN NaN NaN"

definition assign_doubles_to_vector3d :: "dbl \<Rightarrow> dbl \<Rightarrow> dbl \<Rightarrow> Vector3d" where
  "assign_doubles_to_vector3d X Y Z = Vec X Y Z"

text \<open>The test of \<open>propagate\<close> for the sentinel: one coordinate that is not a number.\<close>

definition no_hit :: "Vector3d \<Rightarrow> bool" where
  "no_hit p = (isnan (v0 p) \<or> isnan (v1 p) \<or> isnan (v2 p))"

text \<open>A vector of three finite coordinates.\<close>

definition finite_vec :: "Vector3d \<Rightarrow> bool" where
  "finite_vec p = (is_finite (v0 p) \<and> is_finite (v1 p) \<and> is_finite (v2 p))"

definition vscale :: "Vector3d \<Rightarrow> dbl \<Rightarrow> Vector3d" where
  "vscale v s = Vec (dmul (v0 v) s) (dmul (v1 v) s) (dmul (v2 v) s)"

definition vsub :: "Vector3d \<Rightarrow> Vector3d \<Rightarrow> Vector3d" where
  "vsub a b = Vec (dsub (v0 a) (v0 b)) (dsub (v1 a) (v1 b)) (dsub (v2 a) (v2 b))"

definition vneg :: "Vector3d \<Rightarrow> Vector3d" where
  "vneg v = Vec (dneg (v0 v)) (dneg (v1 v)) (dneg (v2 v))"

definition squaredNorm :: "Vector3d \<Rightarrow> dbl" where
  "squaredNorm v = dadd (dadd (dmul (v0 v) (v0 v)) (dmul (v1 v) (v1 v))) (dmul (v2 v) (v2 v))"

definition vdot :: "Vector3d \<Rightarrow> Vector3d \<Rightarrow> dbl" where
  "vdot a b = dadd (dadd (dmul (v0 a) (v0 b)) (dmul (v1 a) (v1 b))) (dmul (v2 a) (v2 b))"

text \<open>
  \<open>normalize()\<close> of the vector library: the vector is divided by its norm when the
  squared norm is positive, and left as it is otherwise.
\<close>

definition normalize_v :: "Vector3d \<Rightarrow> Vector3d" where
  "normalize_v v =
     (let z = squaredNorm v
      in if dgt z (Fin 0)
         then Vec (quot (v0 v) (dsqrt z)) (quot (v1 v) (dsqrt z)) (quot (v2 v) (dsqrt z))
         else v)"

text \<open>
  A ray, with the fields in the order \<open>Ray.fast_init\<close> takes them at its call sites:
  origin, direction, intensity, wavelength, n, label, draw_color, parent, pop, orig_surf,
  order, parent_cnt. The generation counter \<open>_parent_cnt\<close> is a C \<open>int\<close>: 32 bits, read
  as a signed number, and \<open>_parent_cnt + 1\<close> wraps around at the largest one.
\<close>

datatype Ray = Ray
  (origin: Vector3d)
  (direction: Vector3d)
  (intensity: dbl)
  (wavelength: dbl)
  (n_index: dbl)
  (label: string)
  (draw_color: "string option")
  (parent: "Ray option")
  (pop: dbl)
  (orig_surf: "nat list")
  (order_idx: int)
  (parent_cnt: "32 word")

definition fast_init ::
  "Vector3d \<Rightarrow> Vector3d \<Rightarrow> dbl \<Rightarrow> dbl \<Rightarrow> dbl \<Rightarrow> string \<Rightarrow> string option \<Rightarrow> Ray option
     \<Rightarrow> dbl \<Rightarrow> nat list \<Rightarrow> int \<Rightarrow> 32 word \<Rightarrow> Ray" where
  "fast_init org dir i wl nn lbl col par pp surf ord cnt =
     Ray org dir i wl nn lbl col par pp surf ord cnt"

section \<open>IdealSurface\<close>

record IdealSurface =
  ideal_f :: dbl
  ideal_shape :: "Vector3d \<Rightarrow> bool"
  ideal_reflectivity_function :: "dbl \<Rightarrow> dbl"
  ideal_id :: "nat list"

text \<open>The parameter \<open>u\<close> that \<open>_calculate_intersection\<close> solves for: \<open>u = -z1 / dz\<close>.\<close>

definition intersection_parameter :: "Ray \<Rightarrow> error + dbl" where
  "intersection_parameter incident_ray =
     ddiv (dneg (v2 (origin incident_ray))) (v2 (direction incident_ray))"

definition IdealSurface_calculate_intersection :: "Ray \<Rightarrow> error + Vector3d" where
  "IdealSurface_calculate_intersection incident_ray =
     (let x1 = v0 (origin incident_ray);
          y1 = v1 (origin incident_ray);
          z1 = v2 (origin incident_ray);
          dx = v0 (direction incident_ray);
          dy = v1 (direction incident_ray);
          dz = v2 (direction incident_ray)
      in if deq dz (Fin 0) then Inr assign_nan_to_vector3d
         else (case intersection_parameter incident_ray of
                 Inl e \<Rightarrow> Inl e
               | Inr u \<Rightarrow>
                   Inr (assign_doubles_to_vector3d
                          (dadd x1 (dmul u dx)) (dadd y1 (dmul u dy)) (dadd z1 (dmul u dz)))))"

definition IdealSurface_calculate_normal :: "Vector3d \<Rightarrow> Vector3d" where
  "IdealSurface_calculate_normal intersection_point =
     assign_doubles_to_vector3d (Fin 0) (Fin 0) (Fin 1)"

text \<open>
  Modelled from the spec: \<open>Surface.intersection_cy\<close>, the method of the base class that
  \<open>propagate\<close> calls, is not among the sources. Following the intersection contract it
  takes the point of \<open>_calculate_intersection\<close> and replaces it by the sentinel when the
  point is outside the aperture boundary of the surface, and when it lies behind the
  origin of the ray along its direction.
\<close>

definition intersection_cy :: "IdealSurface \<Rightarrow> Ray \<Rightarrow> error + Vector3d" where
  "intersection_cy s incident_ray =
     (case IdealSurface_calculate_intersection incident_ray of
        Inl e \<Rightarrow> Inl e
      | Inr p \<Rightarrow>
          Inr (if \<not> ideal_shape s p then assign_nan_to_vector3d
               else if dlt (vdot (vsub p (origin incident_ray)) (direction incident_ray)) (Fin 0)
               then assign_nan_to_vector3d
               else p))"

definition IdealSurface_propagate ::
  "IdealSurface \<Rightarrow> Ray \<Rightarrow> dbl \<Rightarrow> dbl \<Rightarrow> error + Ray list" where
  "IdealSurface_propagate s incident_ray ni nr =
     (case intersection_cy s incident_ray of
        Inl e \<Rightarrow> Inl e
      | Inr intersection_point \<Rightarrow>
          if isnan (v0 intersection_point) \<or> isnan (v1 intersection_point)
             \<or> isnan (v2 intersection_point)
          then Inr []
          else
            let dirv = direction incident_ray;
                rz = v2 dirv
            in if deq rz (Fin 0) then Inr []
               else (case ddiv (ideal_f s) (fabs rz) of
                 Inl e \<Rightarrow> Inl e
               | Inr scale \<Rightarrow>
                   let FP = vscale dirv scale;
                       reflect = ideal_reflectivity_function s (wavelength incident_ray)
                   in if dgt reflect (Fin 1) \<or> dlt reflect (Fin 0) then Inl ValueError
                      else
                        let d0 = vsub FP intersection_point;
                            d = normalize_v (if dlt (ideal_f s) (Fin 0) then vneg d0 else d0);
                            rdir = normalize_v (vsub intersection_point FP)
                        in if deq reflect (Fin 0)
                           then Inr [fast_init intersection_point d
                                       (intensity incident_ray) (wavelength incident_ray) nr
                                       (label incident_ray) (draw_color incident_ray)
                                       None (Fin 0) (ideal_id s) 0
                                       (parent_cnt incident_ray + 1)]
                           else if deq reflect (Fin 1)
                           then Inr [fast_init intersection_point rdir
                                       (intensity incident_ray) (wavelength incident_ray) ni
                                       (label incident_ray) (draw_color incident_ray)
                                       None (Fin 0) (ideal_id s) 0
                                       (parent_cnt incident_ray + 1)]
                           else Inr [fast_init intersection_point d
                                       (dmul (intensity incident_ray) (dsub (Fin 1) reflect))
                                       (wavelength incident_ray) nr
                                       (label incident_ray) (draw_color incident_ray)
                                       None (Fin 0) (ideal_id s) 0
                                       (parent_cnt incident_ray + 1),
                                     fast_init intersection_point rdir
                                       (dmul (intensity incident_ray) reflect)
                                       (wavelength incident_ray) ni
                                       (label incident_ray) (draw_color incident_ray)
                                       None (Fin 0) (ideal_id s) 0
                                       (parent_cnt incident_ray + 1)]))"

section \<open>OpticalStop\<close>

text \<open>
  \<open>OpticalStop\<close> extends \<open>Plane\<close>, whose module is not among the sources. The inherited
  \<open>Plane._calculate_intersection\<close> is therefore a parameter \<open>plane\<close> of the two
  methods below: any function from rays to points.
\<close>

record OpticalStop =
  ap_shape :: "(Vector3d \<Rightarrow> bool) option"
  stop_id :: "nat list"

definition OpticalStop_calculate_intersection ::
  "(Ray \<Rightarrow> Vector3d) \<Rightarrow> OpticalStop \<Rightarrow> Ray \<Rightarrow> Vector3d" where
  "OpticalStop_calculate_intersection plane s incident_ray =
     (let intersection_point = plane incident_ray
      in case ap_shape s of
           None \<Rightarrow> intersection_point
         | Some hit_cy \<Rightarrow>
             if hit_cy intersection_point then assign_nan_to_vector3d
             else intersection_point)"

definition OpticalStop_propagate ::
  "(Ray \<Rightarrow> Vector3d) \<Rightarrow> OpticalStop \<Rightarrow> Ray \<Rightarrow> dbl \<Rightarrow> dbl \<Rightarrow> Ray list" where
  "OpticalStop_propagate plane s ri ni nr =
     (let PI = OpticalStop_calculate_intersection plane s ri;
          ret_ray = fast_init PI (direction ri) (Fin 0) (wavelength ri) (n_index ri)
                      (label ri) (draw_color ri) (Some ri) (pop ri) (stop_id s) 0
                      (parent_cnt ri + 1)
      in [ret_ray])"

text \<open>
  Modelled from the spec: \<open>Plane._calculate_intersection\<close> is not among the sources.
  Flat variants intersect the ray with the local plane \<open>z = 0\<close>; a ray parallel to the
  plane has no intersection, and neither has a ray whose intersection parameter lies
  behind its origin. This is the instance of the parameter \<open>plane\<close> used where a stop is
  evaluated on a concrete ray; the theorems on stops hold for every \<open>plane\<close>.
\<close>

definition plane_z0 :: "Ray \<Rightarrow> Vector3d" where
  "plane_z0 incident_ray =
     (let x1 = v0 (origin incident_ray);
          y1 = v1 (origin incident_ray);
          z1 = v2 (origin incident_ray);
          dx = v0 (direction incident_ray);
          dy = v1 (direction incident_ray);
          dz = v2 (direction incident_ray)
      in if deq dz (Fin 0) then assign_nan_to_vector3d
         else let u = quot (dneg z1) dz
              in if dlt u (Fin 0) then assign_nan_to_vector3d
                 else assign_doubles_to_vector3d
                        (dadd x1 (dmul u dx)) (dadd y1 (dmul u dy)) (dadd z1 (dmul u dz)))"

section \<open>SimpleDMD\<close>

record SimpleDMD =
  normal_on :: Vector3d
  normal_off :: Vector3d
  normal_flat :: Vector3d
  state :: string
  tilt_angle :: dbl
  on_direction_angle :: dbl
  off_direction_angle :: dbl



definition set_state :: "SimpleDMD \<Rightarrow> string \<Rightarrow> error + SimpleDMD" where
  "set_state dmd val =
     (if val \<notin> set [''on'', ''off'', ''flat''] then Inl ValueError
      else Inr (dmd\<lparr> state := val \<rparr>))"


section \<open>Concrete surfaces and rays\<close>

text \<open>
  A shape predicate for the concrete inputs below, in the role of the shape collaborator
  (\<open>hit_cy\<close>): the points at a distance from the local origin below a given radius, as
  the stop of the introductory notebook uses it (\<open>Circular(radius=15)\<close>).
\<close>

definition Circular :: "real \<Rightarrow> Vector3d \<Rightarrow> bool" where
  "Circular radius p = dlt (dsqrt (squaredNorm p)) (Fin radius)"

text \<open>A source ray: intensity 1, no parent, generation 0.\<close>

definition source_ray :: "Vector3d \<Rightarrow> Vector3d \<Rightarrow> Ray" where
  "source_ray pos dir =
     Ray pos dir (Fin 1) (Fin (65 / 100)) (Fin 1) [] None None (Fin 0) [] 0 0"

definition ideal_lens :: "dbl \<Rightarrow> IdealSurface" where
  "ideal_lens R =
     \<lparr> ideal_f = Fin 100, ideal_shape = Circular 10,
       ideal_reflectivity_function = (\<lambda>w. R), ideal_id = [0] \<rparr>"

definition diaphragm :: OpticalStop where
  "diaphragm = \<lparr> ap_shape = Some (Circular 15), stop_id = [1] \<rparr>"

definition full_stop :: OpticalStop where
  "full_stop = \<lparr> ap_shape = None, stop_id = [2] \<rparr>"

text \<open>
  The source ray along the axis with another intensity, and with another generation
  counter.
\<close>

definition ray_of_intensity :: "dbl \<Rightarrow> Ray" where
  "ray_of_intensity i =
     Ray (Vec (Fin 0) (Fin 0) (Fin (- 1))) (Vec (Fin 0) (Fin 0) (Fin 1)) i (Fin (65 / 100))
       (Fin 1) [] None None (Fin 0) [] 0 0"

definition ray_of_generation :: "32 word \<Rightarrow> Ray" where
  "ray_of_generation g =
     Ray (Vec (Fin 0) (Fin 0) (Fin (- 1))) (Vec (Fin 0) (Fin 0) (Fin 1)) (Fin 1) (Fin (65 / 100))
       (Fin 1) [] None None (Fin 0) [] 0 g"

text \<open>Along the axis towards the plane; through the rim of the stop; away from the plane;
  parallel to the plane.\<close>

definition ray_axis :: Ray where
  "ray_axis = source_ray (Vec (Fin 0) (Fin 0) (Fin (- 1))) (Vec (Fin 0) (Fin 0) (Fin 1))"

definition ray_rim :: Ray where
  "ray_rim = source_ray (Vec (Fin 20) (Fin 0) (Fin (- 1))) (Vec (Fin 0) (Fin 0) (Fin 1))"

definition ray_behind :: Ray where
  "ray_behind = source_ray (Vec (Fin 0) (Fin 0) (Fin 1)) (Vec (Fin 0) (Fin 0) (Fin 1))"

definition ray_parallel :: Ray where
  "ray_parallel = source_ray (Vec (Fin 0) (Fin 0) (Fin (- 1))) (Vec (Fin 1) (Fin 0) (Fin 0))"

text \<open>
  A ray with finite coordinates, far from the plane and moving away from it: its
  intersection parameter \<open>-2^1025\<close> is beyond the largest double.
\<close>

definition ray_far :: Ray where
  "ray_far = source_ray (Vec (Fin 0) (Fin 0) (Fin (2 ^ 1023))) (Vec (Fin 0) (Fin 0) (Fin (1 / 4)))"


section \<open>Auxiliary facts\<close>

lemmas concrete_defs = Circular_def source_ray_def ideal_lens_def diaphragm_def full_stop_def
  ray_axis_def ray_rim_def ray_behind_def ray_parallel_def ray_of_intensity_def
  ray_of_generation_def

lemmas model_defs = ddiv_def assign_nan_to_vector3d_def assign_doubles_to_vector3d_def
  no_hit_def intersection_parameter_def IdealSurface_calculate_intersection_def
  intersection_cy_def OpticalStop_calculate_intersection_def OpticalStop_propagate_def
  plane_z0_def fast_init_def vsub_def vdot_def squaredNorm_def dsub_def dgt_def

lemmas eval_defs = concrete_defs model_defs IdealSurface_propagate_def Let_def

subsection \<open>Rounding\<close>

lemma round_half_even_int [simp]: "round_half_even (of_int n) = n"
  by (simp add: round_half_even_def)

lemma round_half_even_err: "\<bar>of_int (round_half_even r) - r\<bar> \<le> 1 / 2"
proof -
  have "of_int \<lfloor>r\<rfloor> \<le> r" "r < of_int \<lfloor>r\<rfloor> + 1" by linarith+
  then show ?thesis
    by (auto simp add: round_half_even_def Let_def)
qed

lemma floor_log2_eq:
  assumes "2 powr of_int e \<le> \<bar>x\<bar>" and "\<bar>x\<bar> < 2 powr of_int (e + 1)"
  shows "\<lfloor>log 2 \<bar>x\<bar>\<rfloor> = e"
proof -
  have pos: "0 < \<bar>x\<bar>"
    using assms(1) by (smt (verit) powr_gt_zero)
  have "of_int e \<le> log 2 \<bar>x\<bar>"
    using assms(1) pos by (simp add: le_log_iff)
  moreover have "log 2 \<bar>x\<bar> < of_int e + 1"
    using assms(2) pos by (simp add: log_less_iff)
  ultimately show ?thesis by linarith
qed

lemma floor_log2_bounds:
  assumes "x \<noteq> 0"
  shows "2 powr of_int \<lfloor>log 2 \<bar>x\<bar>\<rfloor> \<le> \<bar>x\<bar>" and "\<bar>x\<bar> < 2 powr of_int (\<lfloor>log 2 \<bar>x\<bar>\<rfloor> + 1)"
proof -
  have pos: "0 < \<bar>x\<bar>" using assms by simp
  show "2 powr of_int \<lfloor>log 2 \<bar>x\<bar>\<rfloor> \<le> \<bar>x\<bar>"
    using pos le_log_iff [of 2 "\<bar>x\<bar>" "of_int \<lfloor>log 2 \<bar>x\<bar>\<rfloor>"] by simp
  have "log 2 \<bar>x\<bar> < of_int (\<lfloor>log 2 \<bar>x\<bar>\<rfloor> + 1)" by linarith
  then show "\<bar>x\<bar> < 2 powr of_int (\<lfloor>log 2 \<bar>x\<bar>\<rfloor> + 1)"
    using pos log_less_iff [of 2 "\<bar>x\<bar>" "of_int (\<lfloor>log 2 \<bar>x\<bar>\<rfloor> + 1)"] by simp
qed

lemma rnd_cases: "rnd x = PInf \<or> rnd x = MInf \<or> (\<exists>y. rnd x = Fin y)"
  by (simp add: rnd_def Let_def)

lemma rnd_err:
  assumes "rnd x = Fin y"
  shows "\<bar>y - x\<bar> \<le> \<bar>x\<bar> / 2 ^ 53 + 1 / 2 ^ 1075"
proof (cases "x = 0")
  case True
  then show ?thesis using assms by (simp add: rnd_def)
next
  case False
  define q :: real where "q = 2 powr of_int (binade x - 52)"
  have qpos: "0 < q" by (simp add: q_def)
  have y: "y = of_int (round_half_even (x / q)) * q"
    using assms False by (simp add: rnd_def Let_def q_def split: if_splits)
  have "(of_int (round_half_even (x / q)) - x / q) * q = y - x"
    using qpos by (simp add: y left_diff_distrib)
  then have "\<bar>y - x\<bar> = \<bar>of_int (round_half_even (x / q)) - x / q\<bar> * q"
    using qpos by (metis abs_mult abs_of_pos)
  also have "\<dots> \<le> 1 / 2 * q"
    using round_half_even_err [of "x / q"] qpos by (intro mult_right_mono) simp_all
  finally have half: "\<bar>y - x\<bar> \<le> q / 2" by simp
  show ?thesis
  proof (cases "\<lfloor>log 2 \<bar>x\<bar>\<rfloor> \<le> - 1022")
    case True
    then have "binade x = - 1022" by (simp add: binade_def)
    then have "q = 1 / 2 ^ 1074" by (simp add: q_def powr_minus_divide)
    then have "q / 2 = 1 / 2 ^ 1075" by simp
    moreover have "0 \<le> \<bar>x\<bar> / 2 ^ 53" by simp
    ultimately show ?thesis using half by linarith
  next
    case False
    then have b: "binade x = \<lfloor>log 2 \<bar>x\<bar>\<rfloor>" by (simp add: binade_def)
    have "q = 2 powr of_int \<lfloor>log 2 \<bar>x\<bar>\<rfloor> * 2 powr (- 52)"
      by (simp add: q_def b powr_diff powr_minus_divide)
    also have "\<dots> \<le> \<bar>x\<bar> * 2 powr (- 52)"
      using floor_log2_bounds(1) [OF \<open>x \<noteq> 0\<close>] by (intro mult_right_mono) simp_all
    finally have "q / 2 \<le> \<bar>x\<bar> / 2 ^ 53" by (simp add: powr_minus_divide)
    then show ?thesis using half by simp
  qed
qed

lemma rnd_representable:
  assumes "representable x"
  shows "rnd x = Fin x"
proof (cases "x = 0")
  case True
  then show ?thesis by (simp add: rnd_def)
next
  case False
  obtain m e :: int where m: "\<bar>m\<bar> < 2 ^ 53" and e: "- 1074 \<le> e" "e \<le> 971"
    and x: "x = of_int m * 2 powr of_int e"
    using assms unfolding representable_def by blast
  have absx: "\<bar>x\<bar> = of_int \<bar>m\<bar> * 2 powr of_int e"
    by (simp add: x abs_mult)
  have "of_int \<bar>m\<bar> < (2::real) ^ 53"
    using m by (metis of_int_less_numeral_power_cancel_iff)
  then have lt: "\<bar>x\<bar> < 2 powr of_int (e + 53)"
    by (simp add: absx powr_add)
  have "(2::real) powr of_int \<lfloor>log 2 \<bar>x\<bar>\<rfloor> < 2 powr of_int (e + 53)"
    using floor_log2_bounds(1) [OF False] lt by linarith
  then have "\<lfloor>log 2 \<bar>x\<bar>\<rfloor> < e + 53" by simp
  then have k: "binade x - 52 \<le> e"
    using e(1) by (simp add: binade_def)
  define j where "j = nat (e - (binade x - 52))"
  define q :: real where "q = 2 powr of_int (binade x - 52)"
  have "(2::real) powr of_int e = q * 2 ^ j"
  proof -
    have "(of_int e :: real) = of_int (binade x - 52) + real j"
      using k by (simp add: j_def)
    then show ?thesis
      by (simp add: q_def powr_add powr_realpow)
  qed
  moreover have qpos: "0 < q" by (simp add: q_def)
  ultimately have xq: "x / q = of_int (m * 2 ^ j)"
    by (simp add: x)
  have y: "of_int (round_half_even (x / q)) * q = x"
    unfolding xq round_half_even_int using xq qpos by (simp add: field_simps)
  have "\<bar>x\<bar> < 2 powr of_int (971 + 53)"
    using lt e(2) by (smt (verit) powr_less_cancel_iff of_int_le_iff)
  then have "\<bar>x\<bar> < overflow_threshold" by (simp add: overflow_threshold_def)
  then have "\<not> overflow_threshold \<le> x" "\<not> x \<le> - overflow_threshold" by linarith+
  then show ?thesis
    using False y by (simp add: rnd_def Let_def q_def)
qed


lemma rnd_zero [simp]: "rnd 0 = Fin 0"
  by (simp add: rnd_def)

lemma rnd_dyadic:
  assumes "\<bar>k\<bar> < 2 ^ 53" and "n \<le> 1074"
  shows "rnd (of_int k / 2 ^ n) = Fin (of_int k / 2 ^ n)"
proof (rule rnd_representable)
  have "(of_int k / 2 ^ n :: real) = of_int k * 2 powr of_int (- int n)"
    by (simp add: powr_minus_divide powr_realpow)
  then show "representable (of_int k / 2 ^ n)"
    unfolding representable_def using assms
    by (intro exI [of _ k] exI [of _ "- int n"]) simp
qed

lemma rnd_of_int: "\<bar>k\<bar> < 2 ^ 53 \<Longrightarrow> rnd (of_int k) = Fin (of_int k)"
  using rnd_dyadic [of k 0] by simp

lemma rnd_numeral [simp]:
  "(numeral n :: int) < 2 ^ 53 \<Longrightarrow> rnd (numeral n) = Fin (numeral n)"
  using rnd_of_int [of "numeral n"] by simp

lemma rnd_neg_numeral [simp]:
  "(numeral n :: int) < 2 ^ 53 \<Longrightarrow> rnd (- numeral n) = Fin (- numeral n)"
  using rnd_of_int [of "- numeral n"] by simp

lemma rnd_one [simp]: "rnd 1 = Fin 1"
  using rnd_of_int [of 1] by simp

lemma rnd_neg_one [simp]: "rnd (- 1) = Fin (- 1)"
  using rnd_of_int [of "- 1"] by simp

lemma rnd_eval:
  assumes "2 ^ 52 \<le> \<bar>x\<bar> * 2 ^ n" and "\<bar>x\<bar> * 2 ^ n < 2 ^ 53" and "n \<le> 1074"
    and "round_half_even (x * 2 ^ n) = m"
  shows "rnd x = Fin (of_int m / 2 ^ n)"
proof -
  define e where "e = 52 - int n"
  have p: "(2::real) powr of_int e = 2 ^ 52 / 2 ^ n" "(2::real) powr of_int (e + 1) = 2 ^ 53 / 2 ^ n"
    by (simp_all add: e_def powr_diff powr_realpow powr_add)
  have pos: "(0::real) < 2 ^ n" by simp
  have lo: "2 powr of_int e \<le> \<bar>x\<bar>"
    unfolding p using assms(1) pos by (simp add: field_simps)
  have hi: "\<bar>x\<bar> < 2 powr of_int (e + 1)"
    unfolding p using assms(2) pos by (simp add: field_simps)
  have "\<lfloor>log 2 \<bar>x\<bar>\<rfloor> = e"
    using lo hi by (rule floor_log2_eq)
  then have b: "binade x - 52 = - int n"
    using assms(3) by (simp add: binade_def e_def)
  have q: "(2::real) powr of_int (binade x - 52) = 1 / 2 ^ n"
    unfolding b by (simp add: powr_minus_divide powr_realpow)
  have nz: "x \<noteq> 0"
    using assms(1) by auto
  have "\<bar>of_int m - x * 2 ^ n\<bar> \<le> 1 / 2"
    using round_half_even_err [of "x * 2 ^ n"] assms(4) by simp
  then have "\<bar>real_of_int m\<bar> \<le> \<bar>x * 2 ^ n\<bar> + 1 / 2"
    by linarith
  then have "\<bar>real_of_int m\<bar> \<le> \<bar>x\<bar> * 2 ^ n + 1 / 2"
    by (simp add: abs_mult)
  then have m: "\<bar>real_of_int m\<bar> < 2 ^ 54"
    using assms(2) by simp
  have "(1::real) \<le> 2 ^ n" by simp
  then have "\<bar>real_of_int m\<bar> * 1 \<le> \<bar>real_of_int m\<bar> * 2 ^ n"
    by (intro mult_left_mono) simp_all
  then have "\<bar>real_of_int m\<bar> / 2 ^ n \<le> \<bar>real_of_int m\<bar>"
    by (simp add: field_simps)
  then have "\<bar>real_of_int m / 2 ^ n\<bar> < overflow_threshold"
    using m by (simp add: overflow_threshold_def)
  then have "\<not> overflow_threshold \<le> real_of_int m / 2 ^ n"
    "\<not> real_of_int m / 2 ^ n \<le> - overflow_threshold"
    by linarith+
  then show ?thesis
    unfolding rnd_def Let_def q using nz assms(4) by simp
qed


lemma round_half_even_ge: "of_int n \<le> r \<Longrightarrow> n \<le> round_half_even r"
proof -
  assume "of_int n \<le> r"
  then have "n \<le> \<lfloor>r\<rfloor>" by linarith
  then show ?thesis
    by (auto simp add: round_half_even_def Let_def)
qed

lemma round_half_even_le: "r \<le> of_int n \<Longrightarrow> round_half_even r \<le> n"
proof -
  assume r: "r \<le> of_int n"
  have "\<lfloor>r\<rfloor> \<le> n" using r by linarith
  moreover have "\<lfloor>r\<rfloor> + 1 \<le> n" if "0 < r - of_int \<lfloor>r\<rfloor>"
    using that r by linarith
  ultimately show ?thesis
    by (auto simp add: round_half_even_def Let_def)
qed

lemma rnd_overflow:
  assumes "overflow_threshold \<le> \<bar>x\<bar>"
  shows "rnd x = (if 0 < x then PInf else MInf)"
proof -
  have big: "2 ^ 1024 \<le> \<bar>x\<bar>"
    using assms by (simp add: overflow_threshold_def)
  then have nz: "x \<noteq> 0" by auto
  define E where "E = \<lfloor>log 2 \<bar>x\<bar>\<rfloor>"
  have "(1024::real) \<le> log 2 \<bar>x\<bar>"
    using big nz le_log_iff [of 2 "\<bar>x\<bar>" 1024] by simp
  then have E: "1024 \<le> E"
    unfolding E_def by linarith
  then have b: "binade x = E"
    by (simp add: binade_def E_def)
  define q :: real where "q = 2 powr of_int (E - 52)"
  have qpos: "0 < q" by (simp add: q_def)
  have q52: "2 ^ 52 * q = 2 powr of_int E"
    by (simp add: q_def powr_diff)
  have lo: "2 powr of_int E \<le> \<bar>x\<bar>"
    unfolding E_def by (rule floor_log2_bounds(1) [OF nz])
  have th: "overflow_threshold \<le> 2 powr of_int E"
  proof -
    have "(2::real) powr of_int 1024 \<le> 2 powr of_int E"
      using E by (simp del: of_int_numeral)
    then show ?thesis by (simp add: overflow_threshold_def)
  qed
  define m where "m = round_half_even (x / q)"
  show ?thesis
  proof (cases "0 < x")
    case True
    then have "2 ^ 52 * q \<le> x"
      using lo q52 by simp
    then have "of_int (2 ^ 52) \<le> x / q"
      using qpos by (simp add: field_simps)
    then have "2 ^ 52 \<le> m"
      unfolding m_def by (rule round_half_even_ge)
    then have "(2 ^ 52 :: real) \<le> of_int m"
      by (metis of_int_le_iff of_int_numeral of_int_power)
    then have "2 ^ 52 * q \<le> of_int m * q"
      using qpos by (intro mult_right_mono) simp_all
    then have "overflow_threshold \<le> of_int m * q"
      using th q52 by linarith
    then show ?thesis
      unfolding rnd_def Let_def b q_def [symmetric] m_def [symmetric]
      using True nz by simp
  next
    case False
    then have neg: "x < 0" using nz by simp
    then have "x \<le> - (2 ^ 52 * q)"
      using lo q52 by simp
    then have "x / q \<le> of_int (- (2 ^ 52))"
      using qpos by (simp add: field_simps)
    then have "m \<le> - (2 ^ 52)"
      unfolding m_def by (rule round_half_even_le)
    then have "of_int m \<le> - (2 ^ 52 :: real)"
      by (metis of_int_le_iff of_int_numeral of_int_power of_int_minus)
    then have "of_int m * q \<le> - (2 ^ 52) * q"
      using qpos by (intro mult_right_mono) simp_all
    then have y: "of_int m * q \<le> - overflow_threshold"
      using th q52 by linarith
    have "0 < overflow_threshold" by (simp add: overflow_threshold_def)
    then have "\<not> overflow_threshold \<le> of_int m * q"
      using y by linarith
    then show ?thesis
      unfolding rnd_def Let_def b q_def [symmetric] m_def [symmetric]
      using False nz y by simp
  qed
qed

lemma sqrt_400 [simp]: "sqrt 400 = 20"
  using real_sqrt_abs [of 20] by simp

lemma isnan_rnd [simp]: "\<not> isnan (rnd x)"
  using rnd_cases [of x] by auto

lemma dmul_Fin_Fin_not_nan: "\<not> isnan (dmul (Fin a) (Fin b))"
  by simp

lemma dadd_Fin_not_nan: "\<not> isnan b \<Longrightarrow> \<not> isnan (dadd (Fin a) b)"
  by (cases b) simp_all

lemma dadd_is_Fin:
  assumes "dadd a b = Fin c"
  obtains x y where "a = Fin x" and "b = Fin y" and "rnd (x + y) = Fin c"
  using assms by (cases a; cases b) simp_all

lemma dmul_is_Fin:
  assumes "dmul a b = Fin c"
  obtains x y where "a = Fin x" and "b = Fin y" and "rnd (x * y) = Fin c"
  using assms by (cases a; cases b) (simp_all add: signed_inf_def split: if_splits)

lemma deq_fabs [simp]: "deq (fabs a) (Fin 0) = deq a (Fin 0)"
  by (cases a) simp_all

subsection \<open>Intersection and propagation\<close>

lemma calculate_intersection_total:
  "\<exists>p. IdealSurface_calculate_intersection ri = Inr p"
  by (simp add: IdealSurface_calculate_intersection_def intersection_parameter_def ddiv_def
      Let_def)

lemma intersection_cy_total: "\<exists>p. intersection_cy s ri = Inr p"
  using calculate_intersection_total [of ri]
  by (auto simp add: intersection_cy_def)

lemma no_hit_nan [simp]: "no_hit assign_nan_to_vector3d"
  by (simp add: no_hit_def assign_nan_to_vector3d_def)

lemma hit_dz:
  assumes "IdealSurface_calculate_intersection ri = Inr p" and "\<not> no_hit p"
  shows "\<not> deq (v2 (direction ri)) (Fin 0)"
  using assms by (auto simp add: IdealSurface_calculate_intersection_def Let_def)

lemma valid_intersection_dz:
  assumes "intersection_cy s ri = Inr p" and "\<not> no_hit p"
  shows "\<not> deq (v2 (direction ri)) (Fin 0)"
proof -
  obtain q where q: "IdealSurface_calculate_intersection ri = Inr q"
    using calculate_intersection_total by blast
  with assms have "p = q"
    by (auto simp add: intersection_cy_def split: if_splits)
  with q assms(2) show ?thesis using hit_dz by blast
qed

lemma propagate_no_hit:
  assumes "intersection_cy s ri = Inr p" and "no_hit p"
  shows "IdealSurface_propagate s ri ni nr = Inr []"
  using assms by (simp add: IdealSurface_propagate_def no_hit_def)

lemma focal_scale:
  assumes "\<not> deq (v2 (direction ri)) (Fin 0)"
  shows "ddiv (ideal_f s) (fabs (v2 (direction ri)))
           = Inr (quot (ideal_f s) (fabs (v2 (direction ri))))"
  using assms by (simp add: ddiv_def)

lemma propagate_value_error:
  assumes hit: "intersection_cy s ri = Inr p" "\<not> no_hit p"
    and R: "ideal_reflectivity_function s (wavelength ri) = R"
  shows "(\<exists>e. IdealSurface_propagate s ri ni nr = Inl e) \<longleftrightarrow> (dgt R (Fin 1) \<or> dlt R (Fin 0))"
    and "dgt R (Fin 1) \<or> dlt R (Fin 0) \<Longrightarrow> IdealSurface_propagate s ri ni nr = Inl ValueError"
    and "R = Fin x \<Longrightarrow> (\<exists>e. IdealSurface_propagate s ri ni nr = Inl e) \<longleftrightarrow> x \<notin> {0..1}"
proof -
  note dz = valid_intersection_dz [OF hit]
  have nan: "\<not> (isnan (v0 p) \<or> isnan (v1 p) \<or> isnan (v2 p))"
    using hit(2) by (simp add: no_hit_def)
  show a: "(\<exists>e. IdealSurface_propagate s ri ni nr = Inl e) \<longleftrightarrow> (dgt R (Fin 1) \<or> dlt R (Fin 0))"
    using hit(1) nan dz R focal_scale [OF dz, of s]
    by (auto simp add: IdealSurface_propagate_def Let_def)
  show "dgt R (Fin 1) \<or> dlt R (Fin 0) \<Longrightarrow> IdealSurface_propagate s ri ni nr = Inl ValueError"
    using hit(1) nan dz R focal_scale [OF dz, of s]
    by (auto simp add: IdealSurface_propagate_def Let_def)
  show "(\<exists>e. IdealSurface_propagate s ri ni nr = Inl e) \<longleftrightarrow> x \<notin> {0..1}" if "R = Fin x"
    unfolding a that by (auto simp add: dgt_def)
qed

lemma ideal_children_generation:
  assumes "IdealSurface_propagate s ri ni nr = Inr rs" and "c \<in> set rs"
  shows "parent_cnt c = parent_cnt ri + 1"
proof -
  obtain p where hit: "intersection_cy s ri = Inr p"
    using intersection_cy_total by blast
  show ?thesis
  proof (cases "no_hit p")
    case True
    then show ?thesis using propagate_no_hit [OF hit True, of ni nr] assms by simp
  next
    case False
    note dz = valid_intersection_dz [OF hit False]
    have nan: "\<not> (isnan (v0 p) \<or> isnan (v1 p) \<or> isnan (v2 p))"
      using False by (simp add: no_hit_def)
    show ?thesis
      using assms hit nan dz focal_scale [OF dz, of s]
      by (auto simp add: IdealSurface_propagate_def Let_def fast_init_def split: if_splits)
  qed
qed

lemma stop_propagate_single: "length (OpticalStop_propagate plane s ri ni nr) = 1"
  by (simp add: OpticalStop_propagate_def)

text \<open>
  Where the intersection parameter overflows, the point has coordinates that are not
  numbers, although every coordinate of the ray is finite.
\<close>

lemma overflowing_parameter:
  "finite_vec (origin ray_far) \<and> finite_vec (direction ray_far)
   \<and> intersection_parameter ray_far = Inr MInf
   \<and> IdealSurface_calculate_intersection ray_far = Inr (Vec NaN NaN MInf)
   \<and> no_hit (Vec NaN NaN MInf)"
proof -
  have "rnd (- (2 ^ 1023) / (1 / 4)) = MInf"
    by (subst rnd_overflow) (simp_all add: overflow_threshold_def)
  then have u: "intersection_parameter ray_far = Inr MInf"
    by (simp add: intersection_parameter_def ddiv_def ray_far_def source_ray_def)
  have "IdealSurface_calculate_intersection ray_far = Inr (Vec NaN NaN MInf)"
    unfolding IdealSurface_calculate_intersection_def Let_def u
    by (simp add: ray_far_def source_ray_def assign_doubles_to_vector3d_def signed_inf_def)
  then show ?thesis
    using u by (simp add: ray_far_def source_ray_def finite_vec_def no_hit_def)
qed

subsection \<open>Beam splitting\<close>

lemma beam_split_children:
  assumes hit: "intersection_cy s ri = Inr p" "\<not> no_hit p"
    and R: "ideal_reflectivity_function s (wavelength ri) = Fin R" "0 < R" "R < 1"
  shows "\<exists>t r. IdealSurface_propagate s ri ni nr = Inr [t, r]
           \<and> intensity t = dmul (intensity ri) (dsub (Fin 1) (Fin R))
           \<and> intensity r = dmul (intensity ri) (Fin R)"
proof -
  note dz = valid_intersection_dz [OF hit]
  have nan: "\<not> (isnan (v0 p) \<or> isnan (v1 p) \<or> isnan (v2 p))"
    using hit(2) by (simp add: no_hit_def)
  show ?thesis
    using hit(1) nan dz R focal_scale [OF dz, of s]
    by (simp add: IdealSurface_propagate_def Let_def fast_init_def dgt_def)
qed

lemma split_sum_error:
  assumes R: "0 < R" "R < 1"
    and sum: "dadd (dmul (Fin i) (dsub (Fin 1) (Fin R))) (dmul (Fin i) (Fin R)) = Fin sm"
  shows "\<bar>sm - i\<bar> \<le> \<bar>i\<bar> / 2 ^ 50 + 1 / 2 ^ 1072"
proof -
  obtain \<tau> \<sigma> where t: "dmul (Fin i) (dsub (Fin 1) (Fin R)) = Fin \<tau>"
    and r: "dmul (Fin i) (Fin R) = Fin \<sigma>" and s: "rnd (\<tau> + \<sigma>) = Fin sm"
    using sum by (rule dadd_is_Fin)
  obtain i' \<alpha> where "Fin i = Fin i'" and a: "dsub (Fin 1) (Fin R) = Fin \<alpha>"
    and t': "rnd (i' * \<alpha>) = Fin \<tau>"
    using t by (rule dmul_is_Fin)
  then have t'': "rnd (i * \<alpha>) = Fin \<tau>" by simp
  have a': "rnd (1 - R) = Fin \<alpha>"
    using a by (simp add: dsub_def)
  have r': "rnd (i * R) = Fin \<sigma>"
    using r by simp
  define u :: real where "u = 1 / 2 ^ 53"
  define h :: real where "h = 1 / 2 ^ 1075"
  define I where "I = \<bar>i\<bar>"
  have u: "0 < u" "u \<le> 1 / 8" and h: "0 < h" "h \<le> u"
    by (simp_all add: u_def h_def)
  have I: "0 \<le> I" by (simp add: I_def)
  have P: "0 \<le> I * R" "I * R \<le> I"
    using I R by (simp_all add: mult_left_le)
  have e1: "\<bar>\<alpha> - (1 - R)\<bar> \<le> (1 - R) * u + h"
    using rnd_err [OF a'] R by (simp add: u_def h_def)
  have e2: "\<bar>\<tau> - i * \<alpha>\<bar> \<le> I * \<bar>\<alpha>\<bar> * u + h"
    using rnd_err [OF t''] by (simp add: u_def h_def I_def abs_mult)
  have e3: "\<bar>\<sigma> - i * R\<bar> \<le> I * R * u + h"
    using rnd_err [OF r'] R by (simp add: u_def h_def I_def abs_mult)
  have e4: "\<bar>sm - (\<tau> + \<sigma>)\<bar> \<le> \<bar>\<tau> + \<sigma>\<bar> * u + h"
    using rnd_err [OF s] by (simp add: u_def h_def)
  have "(1 - R) * u \<le> 1 * u"
    using R u by (intro mult_right_mono) simp_all
  then have a1: "\<bar>\<alpha> - (1 - R)\<bar> \<le> u + h"
    using e1 by linarith
  then have a2: "\<bar>\<alpha>\<bar> \<le> 2"
    using R u h by linarith
  have "I * \<bar>\<alpha>\<bar> \<le> I * 2"
    using a2 I by (rule mult_left_mono)
  then have "I * \<bar>\<alpha>\<bar> * u \<le> I * 2 * u"
    using u by (intro mult_right_mono) simp_all
  then have b1: "\<bar>\<tau> - i * \<alpha>\<bar> \<le> 2 * (I * u) + h"
    using e2 by (simp add: mult_ac)
  have "I * \<bar>\<alpha> - (1 - R)\<bar> \<le> I * (u + h)"
    using a1 I by (rule mult_left_mono)
  moreover have "I * h \<le> I * u"
    using h I by (intro mult_left_mono) simp_all
  ultimately have b2: "\<bar>i * (\<alpha> - (1 - R))\<bar> \<le> 2 * (I * u)"
    by (simp add: abs_mult I_def [symmetric] distrib_left)
  have "I * R * u \<le> I * u"
    using P u by (intro mult_right_mono) simp_all
  then have b3: "\<bar>\<sigma> - i * R\<bar> \<le> I * u + h"
    using e3 by linarith
  have split: "\<tau> + \<sigma> - i = (\<tau> - i * \<alpha>) + i * (\<alpha> - (1 - R)) + (\<sigma> - i * R)"
    by (simp add: algebra_simps)
  have c: "\<bar>\<tau> + \<sigma> - i\<bar> \<le> 5 * (I * u) + 2 * h"
    unfolding split using b1 b2 b3 by linarith
  have Iu: "0 \<le> I * u" using I u by simp
  have "\<bar>\<tau> + \<sigma>\<bar> \<le> I + 5 * (I * u) + 2 * h"
    using c unfolding I_def by linarith
  moreover have "5 * (I * u) \<le> I"
  proof -
    have "I * (5 * u) \<le> I * 1"
      using u I by (intro mult_left_mono) simp_all
    then show ?thesis by (simp add: mult_ac)
  qed
  ultimately have d: "\<bar>\<tau> + \<sigma>\<bar> \<le> 2 * I + 2 * h"
    by linarith
  have "\<bar>\<tau> + \<sigma>\<bar> * u \<le> (2 * I + 2 * h) * u"
    using d u by (intro mult_right_mono) simp_all
  moreover have "h * u \<le> h * 1"
    using h u by (intro mult_left_mono) simp_all
  ultimately have "\<bar>\<tau> + \<sigma>\<bar> * u \<le> 2 * (I * u) + 2 * h"
    by (simp add: algebra_simps)
  then have "\<bar>sm - (\<tau> + \<sigma>)\<bar> \<le> 2 * (I * u) + 3 * h"
    using e4 by linarith
  then have "\<bar>sm - i\<bar> \<le> 7 * (I * u) + 5 * h"
    using c by linarith
  also have "\<dots> \<le> 8 * (I * u) + 8 * h * 1"
    using Iu h by linarith
  also have "\<dots> = \<bar>i\<bar> / 2 ^ 50 + 8 * h"
    by (simp add: u_def I_def)
  finally have "\<bar>sm - i\<bar> \<le> \<bar>i\<bar> / 2 ^ 50 + 8 * h" .
  moreover have "8 * h \<le> 1 / 2 ^ 1072"
    by (simp add: h_def)
  ultimately show ?thesis by linarith
qed


subsection \<open>The mirror\<close>




lemma set_state_invalid:
  assumes "val \<notin> set [''on'', ''off'', ''flat'']"
  shows "set_state dmd val = Inl ValueError"
  unfolding set_state_def using assms by simp

subsection \<open>The generation counter\<close>

lemma sint_succ:
  fixes g :: "32 word"
  assumes "sint g < 2 ^ 31 - 1"
  shows "sint (g + 1) = sint g + 1"
proof -
  have "- (2 ^ 31) \<le> sint g"
    using sint_ge [of g] by simp
  then have "signed_take_bit 31 (sint g + 1) = sint g + 1"
    using assms by (intro signed_take_bit_int_eq_self) simp_all
  then show ?thesis
    by (simp add: sint_word_add)
qed

lemma sint_wrap: "sint (2147483647 + 1 :: 32 word) = - 2147483648"
  by simp

section \<open>The claims\<close>

subsection \<open>C1\<close>

text \<open>
  The wording of C1 in the specification, "the same intensity as the incident ray", fails:
  a ray of intensity 1 that meets the diaphragm outside its hole (at \<open>(20, 0, 0)\<close>, the hole has radius 15) gets a child of intensity 0.
\<close>

theorem C1_counterexample:
  "\<not> no_hit (OpticalStop_calculate_intersection plane_z0 diaphragm ray_rim)
   \<and> intensity ray_rim = Fin 1
   \<and> map intensity (OpticalStop_propagate plane_z0 diaphragm ray_rim (Fin 1) (Fin 1)) = [Fin 0]
   \<and> map intensity (OpticalStop_propagate plane_z0 diaphragm ray_rim (Fin 1) (Fin 1))
        \<noteq> [intensity ray_rim]"
  by (simp add: concrete_defs model_defs)

text \<open>
  C1, as the code has it. For every incident ray whose intersection with the stop is valid
  (not the sentinel), \<open>OpticalStop.propagate\<close> returns exactly one child ray, located at the
  intersection point, with the direction and the medium refractive index of the incident
  ray. Its intensity is not the incident intensity: the constructor is called with the
  literal \<open>0\<close>, so the child of a ray that meets the stop carries intensity zero.
\<close>

theorem C1_stop_child:
  assumes "\<not> no_hit (OpticalStop_calculate_intersection plane s ri)"
  shows "map origin (OpticalStop_propagate plane s ri ni nr)
           = [OpticalStop_calculate_intersection plane s ri]
       \<and> map direction (OpticalStop_propagate plane s ri ni nr) = [direction ri]
       \<and> map n_index (OpticalStop_propagate plane s ri ni nr) = [n_index ri]
       \<and> map intensity (OpticalStop_propagate plane s ri ni nr) = [Fin 0]"
  by (simp add: OpticalStop_propagate_def fast_init_def)

theorem C1_witness:
  "\<not> no_hit (OpticalStop_calculate_intersection plane_z0 diaphragm ray_rim)
   \<and> map origin (OpticalStop_propagate plane_z0 diaphragm ray_rim (Fin 1) (Fin 1))
        = [Vec (Fin 20) (Fin 0) (Fin 0)]
   \<and> map direction (OpticalStop_propagate plane_z0 diaphragm ray_rim (Fin 1) (Fin 1))
        = [Vec (Fin 0) (Fin 0) (Fin 1)]
   \<and> map n_index (OpticalStop_propagate plane_z0 diaphragm ray_rim (Fin 1) (Fin 1)) = [Fin 1]
   \<and> map intensity (OpticalStop_propagate plane_z0 diaphragm ray_rim (Fin 1) (Fin 1)) = [Fin 0]"
proof -
  have hit: "OpticalStop_calculate_intersection plane_z0 diaphragm ray_rim
               = Vec (Fin 20) (Fin 0) (Fin 0)"
    by (simp add: concrete_defs model_defs)
  then have valid: "\<not> no_hit (OpticalStop_calculate_intersection plane_z0 diaphragm ray_rim)"
    by (simp add: no_hit_def)
  show ?thesis
    using valid hit C1_stop_child [OF valid, of "Fin 1" "Fin 1"]
    by (simp add: ray_rim_def source_ray_def)
qed

subsection \<open>C2\<close>

text \<open>
  The wording of C2 in the specification, "a negative intersection parameter is reported
  as NO_HIT", fails: the ray from \<open>(0, 0, 1)\<close> with direction \<open>(0, 0, 1)\<close>
  moves away from the plane, its parameter is \<open>-1\<close>, and the function reports the point
  \<open>(0, 0, 0)\<close> behind the ray's origin.
\<close>

theorem C2_counterexample:
  "intersection_parameter ray_behind = Inr (Fin (- 1))
   \<and> dlt (Fin (- 1)) (Fin 0)
   \<and> IdealSurface_calculate_intersection ray_behind = Inr (Vec (Fin 0) (Fin 0) (Fin 0))
   \<and> \<not> no_hit (Vec (Fin 0) (Fin 0) (Fin 0))"
  by (simp add: concrete_defs model_defs)

text \<open>
  C2, as the code has it. \<open>IdealSurface._calculate_intersection\<close> applies no test to the
  sign of the intersection parameter \<open>u = -z1 / dz\<close>. For every incident ray whose
  computed parameter is negative it reports the point \<open>origin + u * direction\<close>, computed
  in double arithmetic; when \<open>u\<close> and the coordinates of the origin and of the direction
  are finite, that point is not the sentinel.
\<close>

theorem C2_behind_origin:
  assumes u: "intersection_parameter ri = Inr u" "dlt u (Fin 0)"
  shows "IdealSurface_calculate_intersection ri
           = Inr (Vec (dadd (v0 (origin ri)) (dmul u (v0 (direction ri))))
                      (dadd (v1 (origin ri)) (dmul u (v1 (direction ri))))
                      (dadd (v2 (origin ri)) (dmul u (v2 (direction ri)))))
       \<and> (is_finite u \<and> finite_vec (origin ri) \<and> finite_vec (direction ri) \<longrightarrow>
            \<not> no_hit (Vec (dadd (v0 (origin ri)) (dmul u (v0 (direction ri))))
                          (dadd (v1 (origin ri)) (dmul u (v1 (direction ri))))
                          (dadd (v2 (origin ri)) (dmul u (v2 (direction ri))))))"
proof -
  have dz: "\<not> deq (v2 (direction ri)) (Fin 0)"
    using u(1) by (auto simp add: intersection_parameter_def ddiv_def split: if_splits)
  have a: "IdealSurface_calculate_intersection ri
           = Inr (Vec (dadd (v0 (origin ri)) (dmul u (v0 (direction ri))))
                      (dadd (v1 (origin ri)) (dmul u (v1 (direction ri))))
                      (dadd (v2 (origin ri)) (dmul u (v2 (direction ri)))))"
    using u(1) dz
    by (simp add: IdealSurface_calculate_intersection_def Let_def assign_doubles_to_vector3d_def)
  have coord: "\<not> isnan (dadd x (dmul u d))" if "is_finite u" "is_finite x" "is_finite d" for x d
    using that by (cases u; cases x; cases d) (simp_all add: dadd_Fin_not_nan)
  have b: "\<not> no_hit (Vec (dadd (v0 (origin ri)) (dmul u (v0 (direction ri))))
                          (dadd (v1 (origin ri)) (dmul u (v1 (direction ri))))
                          (dadd (v2 (origin ri)) (dmul u (v2 (direction ri)))))"
    if "is_finite u \<and> finite_vec (origin ri) \<and> finite_vec (direction ri)"
    using that coord by (simp add: no_hit_def finite_vec_def)
  from a b show ?thesis by blast
qed

theorem C2_witness:
  "intersection_parameter ray_behind = Inr (Fin (- 1)) \<and> dlt (Fin (- 1)) (Fin 0)
   \<and> is_finite (Fin (- 1)) \<and> finite_vec (origin ray_behind) \<and> finite_vec (direction ray_behind)
   \<and> IdealSurface_calculate_intersection ray_behind = Inr (Vec (Fin 0) (Fin 0) (Fin 0))
   \<and> \<not> no_hit (Vec (Fin 0) (Fin 0) (Fin 0))"
proof -
  have u: "intersection_parameter ray_behind = Inr (Fin (- 1))"
    by (simp add: concrete_defs model_defs)
  have neg: "dlt (Fin (- 1)) (Fin 0)" by simp
  have fin: "finite_vec (origin ray_behind)" "finite_vec (direction ray_behind)"
    by (simp_all add: concrete_defs finite_vec_def)
  show ?thesis
    using u fin C2_behind_origin [OF u neg]
    by (simp add: ray_behind_def source_ray_def)
qed

subsection \<open>C3\<close>

text \<open>
  C3 at a ray landing inside the hole of the diaphragm. The intersection step yields the
  sentinel, and \<open>OpticalStop.propagate\<close> nevertheless returns a child ray, whose origin is
  the sentinel: the method has no test for it, unlike \<open>IdealSurface.propagate\<close>
  (lemma \<open>propagate_no_hit\<close>).
\<close>

theorem C3_stop_hole_child:
  "no_hit (OpticalStop_calculate_intersection plane_z0 diaphragm ray_axis)
   \<and> OpticalStop_propagate plane_z0 diaphragm ray_axis (Fin 1) (Fin 1) \<noteq> []
   \<and> map origin (OpticalStop_propagate plane_z0 diaphragm ray_axis (Fin 1) (Fin 1))
        = [Vec NaN NaN NaN]"
  by (simp add: concrete_defs model_defs)

subsection \<open>C4\<close>

lemma split_one_minus: "rnd (1 + - (3 / 2 ^ 54)) = Fin (1 - 1 / 2 ^ 52)"
proof -
  have r: "round_half_even ((1 + - (3 / 2 ^ 54)) * 2 ^ 53) = 2 ^ 53 - 2"
    by (simp add: round_half_even_def Let_def)
  show ?thesis
    using rnd_eval [of "1 + - (3 / 2 ^ 54)" 53, OF _ _ _ r] by simp
qed

lemma split_transmitted: "rnd (3 * (1 - 1 / 2 ^ 52)) = Fin (3 - 1 / 2 ^ 50)"
proof -
  have r: "round_half_even (3 * (1 - 1 / 2 ^ 52) * 2 ^ 51) = 3 * 2 ^ 51 - 2"
    by (simp add: round_half_even_def Let_def)
  show ?thesis
    using rnd_eval [of "3 * (1 - 1 / 2 ^ 52)" 51, OF _ _ _ r] by simp
qed

lemma split_reflected: "rnd (3 * (3 / 2 ^ 54)) = Fin (9 / 2 ^ 54)"
  using rnd_dyadic [of 9 54] by simp

lemma split_sum: "rnd (3 - 1 / 2 ^ 50 + 9 / 2 ^ 54) = Fin (3 - 1 / 2 ^ 51)"
proof -
  have r: "round_half_even ((3 - 1 / 2 ^ 50 + 9 / 2 ^ 54) * 2 ^ 51) = 3 * 2 ^ 51 - 1"
    by (simp add: round_half_even_def Let_def)
  show ?thesis
    using rnd_eval [of "3 - 1 / 2 ^ 50 + 9 / 2 ^ 54" 51, OF _ _ _ r] by simp
qed

lemma split_intensities:
  "dmul (Fin 3) (dsub (Fin 1) (Fin (3 / 2 ^ 54))) = Fin (3 - 1 / 2 ^ 50)"
  "dmul (Fin 3) (Fin (3 / 2 ^ 54)) = Fin (9 / 2 ^ 54)"
  "dadd (Fin (3 - 1 / 2 ^ 50)) (Fin (9 / 2 ^ 54)) = Fin (3 - 1 / 2 ^ 51)"
  unfolding dsub_def dneg.simps dadd.simps dmul.simps split_one_minus split_transmitted
    split_reflected split_sum
  by (rule refl)+

lemma split_inputs: "representable 3" "representable (3 / 2 ^ 54)"
proof -
  have "(3::real) = of_int 3 * 2 powr of_int 0" by simp
  then show "representable 3"
    unfolding representable_def by (intro exI [of _ 3] exI [of _ 0]) simp
  have "(3 / 2 ^ 54 :: real) = of_int 3 * 2 powr of_int (- 54)"
    by (simp add: powr_minus_divide)
  then show "representable (3 / 2 ^ 54)"
    unfolding representable_def by (intro exI [of _ 3] exI [of _ "- 54"]) simp
qed

lemma split_hit:
  "intersection_cy (ideal_lens R) (ray_of_intensity i) = Inr (Vec (Fin 0) (Fin 0) (Fin 0))"
  by (simp add: concrete_defs model_defs)

text \<open>
  The wording of C4 in the specification, "the sum of the two child intensities equals the
  parent ray's intensity", fails in double arithmetic: for the parent intensity 3 and the
  reflectivity \<open>3 / 2^54\<close>, both of them doubles, the children carry \<open>3 - 2^-50\<close> and
  \<open>9 / 2^54\<close>, and the sum of these two doubles is \<open>3 - 2^-51\<close>.
\<close>

theorem C4_counterexample:
  "representable 3 \<and> representable (3 / 2 ^ 54)
   \<and> intersection_cy (ideal_lens (Fin (3 / 2 ^ 54))) (ray_of_intensity (Fin 3))
        = Inr (Vec (Fin 0) (Fin 0) (Fin 0))
   \<and> \<not> no_hit (Vec (Fin 0) (Fin 0) (Fin 0))
   \<and> map_sum id (map intensity)
        (IdealSurface_propagate (ideal_lens (Fin (3 / 2 ^ 54))) (ray_of_intensity (Fin 3))
           (Fin 1) (Fin (3 / 2)))
        = Inr [Fin (3 - 1 / 2 ^ 50), Fin (9 / 2 ^ 54)]
   \<and> dadd (Fin (3 - 1 / 2 ^ 50)) (Fin (9 / 2 ^ 54)) = Fin (3 - 1 / 2 ^ 51)
   \<and> Fin (3 - 1 / 2 ^ 51) \<noteq> intensity (ray_of_intensity (Fin 3))"
proof -
  have valid: "\<not> no_hit (Vec (Fin 0) (Fin 0) (Fin 0))"
    by (simp add: no_hit_def)
  have R: "ideal_reflectivity_function (ideal_lens (Fin (3 / 2 ^ 54)))
             (wavelength (ray_of_intensity (Fin 3))) = Fin (3 / 2 ^ 54)"
      "(0::real) < 3 / 2 ^ 54" "(3 / 2 ^ 54 :: real) < 1"
    by (simp_all add: ideal_lens_def)
  have i: "intensity (ray_of_intensity (Fin 3)) = Fin 3"
    by (simp add: ray_of_intensity_def)
  obtain t r where tr:
    "IdealSurface_propagate (ideal_lens (Fin (3 / 2 ^ 54))) (ray_of_intensity (Fin 3))
       (Fin 1) (Fin (3 / 2)) = Inr [t, r]"
    "intensity t = dmul (Fin 3) (dsub (Fin 1) (Fin (3 / 2 ^ 54)))"
    "intensity r = dmul (Fin 3) (Fin (3 / 2 ^ 54))"
    using beam_split_children [OF split_hit valid R, of "Fin 1" "Fin (3 / 2)"]
    unfolding i by blast
  have children: "map_sum id (map intensity)
        (IdealSurface_propagate (ideal_lens (Fin (3 / 2 ^ 54))) (ray_of_intensity (Fin 3))
           (Fin 1) (Fin (3 / 2)))
        = Inr [Fin (3 - 1 / 2 ^ 50), Fin (9 / 2 ^ 54)]"
    unfolding tr map_sum.simps list.map split_intensities(1,2) by (rule refl)
  have differ: "Fin (3 - 1 / 2 ^ 51) \<noteq> intensity (ray_of_intensity (Fin 3))"
    unfolding i by simp
  show ?thesis
    using split_inputs split_hit valid children split_intensities(3) differ by blast
qed

text \<open>
  C4, as the code has it. For every beam-splitting call of \<open>IdealSurface.propagate\<close>, with
  a valid intersection and a reflectivity \<open>R\<close> strictly between 0 and 1, the result is a
  transmitted and a reflected child, of intensity the double product of the parent's
  intensity with \<open>1.0 - R\<close> and with \<open>R\<close>. The sum of the two child intensities equals
  the parent's intensity up to rounding: whenever the parent's intensity \<open>i\<close> and the
  double sum \<open>sm\<close> of the two are finite, \<open>|sm - i| \<le> |i| / 2^50 + 2^-1072\<close>.
\<close>

theorem C4_beam_split_energy:
  assumes hit: "intersection_cy s ri = Inr p" "\<not> no_hit p"
    and R: "ideal_reflectivity_function s (wavelength ri) = Fin R" "0 < R" "R < 1"
  shows "\<exists>t r. IdealSurface_propagate s ri ni nr = Inr [t, r]
           \<and> intensity t = dmul (intensity ri) (dsub (Fin 1) (Fin R))
           \<and> intensity r = dmul (intensity ri) (Fin R)
           \<and> (\<forall>i sm. intensity ri = Fin i \<and> dadd (intensity t) (intensity r) = Fin sm
                 \<longrightarrow> \<bar>sm - i\<bar> \<le> \<bar>i\<bar> / 2 ^ 50 + 1 / 2 ^ 1072)"
proof -
  obtain t r where tr: "IdealSurface_propagate s ri ni nr = Inr [t, r]"
    "intensity t = dmul (intensity ri) (dsub (Fin 1) (Fin R))"
    "intensity r = dmul (intensity ri) (Fin R)"
    using beam_split_children [OF hit R] by blast
  have "\<bar>sm - i\<bar> \<le> \<bar>i\<bar> / 2 ^ 50 + 1 / 2 ^ 1072"
    if "intensity ri = Fin i \<and> dadd (intensity t) (intensity r) = Fin sm" for i sm
  proof -
    from that have i: "intensity ri = Fin i" and sm: "dadd (intensity t) (intensity r) = Fin sm"
      by blast+
    from sm have "dadd (dmul (Fin i) (dsub (Fin 1) (Fin R))) (dmul (Fin i) (Fin R)) = Fin sm"
      unfolding tr(2,3) i .
    then show ?thesis by (rule split_sum_error [OF R(2,3)])
  qed
  with tr show ?thesis by blast
qed

theorem C4_witness:
  "intersection_cy (ideal_lens (Fin (1 / 4))) ray_axis = Inr (Vec (Fin 0) (Fin 0) (Fin 0))
   \<and> \<not> no_hit (Vec (Fin 0) (Fin 0) (Fin 0))
   \<and> map_sum id (map intensity)
        (IdealSurface_propagate (ideal_lens (Fin (1 / 4))) ray_axis (Fin 1) (Fin (3 / 2)))
        = Inr [Fin (3 / 4), Fin (1 / 4)]
   \<and> dadd (Fin (3 / 4)) (Fin (1 / 4)) = Fin 1
   \<and> intensity ray_axis = Fin 1
   \<and> \<bar>1 - 1 :: real\<bar> \<le> \<bar>1\<bar> / 2 ^ 50 + 1 / 2 ^ 1072"
proof -
  have hit: "intersection_cy (ideal_lens (Fin (1 / 4))) ray_axis
               = Inr (Vec (Fin 0) (Fin 0) (Fin 0))"
    by (simp add: concrete_defs model_defs)
  have valid: "\<not> no_hit (Vec (Fin 0) (Fin 0) (Fin 0))"
    by (simp add: no_hit_def)
  have R: "ideal_reflectivity_function (ideal_lens (Fin (1 / 4))) (wavelength ray_axis)
             = Fin (1 / 4)" "(0::real) < 1 / 4" "(1 / 4 :: real) < 1"
    by (simp_all add: ideal_lens_def)
  have i: "intensity ray_axis = Fin 1"
    by (simp add: ray_axis_def source_ray_def)
  have q: "rnd (3 / 4) = Fin (3 / 4)" "rnd (1 / 4) = Fin (1 / 4)"
    using rnd_dyadic [of 3 2] rnd_dyadic [of 1 2] by simp_all
  obtain t r where tr:
    "IdealSurface_propagate (ideal_lens (Fin (1 / 4))) ray_axis (Fin 1) (Fin (3 / 2)) = Inr [t, r]"
    "intensity t = dmul (intensity ray_axis) (dsub (Fin 1) (Fin (1 / 4)))"
    "intensity r = dmul (intensity ray_axis) (Fin (1 / 4))"
    and tol: "\<forall>i sm. intensity ray_axis = Fin i \<and> dadd (intensity t) (intensity r) = Fin sm
                 \<longrightarrow> \<bar>sm - i\<bar> \<le> \<bar>i\<bar> / 2 ^ 50 + 1 / 2 ^ 1072"
    using C4_beam_split_energy [OF hit valid R, of "Fin 1" "Fin (3 / 2)"] by blast
  have t: "intensity t = Fin (3 / 4)" and r: "intensity r = Fin (1 / 4)"
    unfolding tr(2,3) i by (simp_all add: dsub_def q)
  have sum: "dadd (Fin (3 / 4)) (Fin (1 / 4)) = Fin 1"
    by simp
  have "\<bar>1 - 1 :: real\<bar> \<le> \<bar>1\<bar> / 2 ^ 50 + 1 / 2 ^ 1072"
    using tol i sum unfolding t r by blast
  then show ?thesis
    using hit valid sum i unfolding tr(1) by (simp add: t r)
qed

subsection \<open>C5\<close>



subsection \<open>C6\<close>

text \<open>
  C6. For every call of \<open>IdealSurface.propagate\<close> with a valid intersection \<open>p\<close> and a
  direction whose z-component is not zero: reflectivity 0 gives exactly one child, with
  medium index \<open>nr\<close> (transmitted); reflectivity 1 gives exactly one child, with medium
  index \<open>ni\<close> (reflected); a reflectivity strictly between gives exactly two children, the
  first with index \<open>nr\<close>, the second with index \<open>ni\<close>. Every child starts at \<open>p\<close>.
\<close>

theorem C6_child_count:
  assumes hit: "intersection_cy s ri = Inr p" "\<not> no_hit p"
    and rz: "\<not> deq (v2 (direction ri)) (Fin 0)"
    and R: "ideal_reflectivity_function s (wavelength ri) = R"
  shows "(deq R (Fin 0) \<longrightarrow>
            (\<exists>t. IdealSurface_propagate s ri ni nr = Inr [t] \<and> n_index t = nr \<and> origin t = p))
       \<and> (deq R (Fin 1) \<longrightarrow>
            (\<exists>r. IdealSurface_propagate s ri ni nr = Inr [r] \<and> n_index r = ni \<and> origin r = p))
       \<and> (dgt R (Fin 0) \<and> dlt R (Fin 1) \<longrightarrow>
            (\<exists>t r. IdealSurface_propagate s ri ni nr = Inr [t, r]
                \<and> n_index t = nr \<and> n_index r = ni \<and> origin t = p \<and> origin r = p))"
proof -
  note dz = valid_intersection_dz [OF hit]
  have nan: "\<not> (isnan (v0 p) \<or> isnan (v1 p) \<or> isnan (v2 p))"
    using hit(2) by (simp add: no_hit_def)
  show ?thesis
    using hit(1) nan dz R focal_scale [OF dz, of s]
    by (cases R) (auto simp add: IdealSurface_propagate_def Let_def fast_init_def dgt_def)
qed

theorem C6_witness:
  "intersection_cy (ideal_lens (Fin 0)) ray_axis = Inr (Vec (Fin 0) (Fin 0) (Fin 0))
   \<and> map_sum id (map n_index)
        (IdealSurface_propagate (ideal_lens (Fin 0)) ray_axis (Fin 1) (Fin (3 / 2)))
        = Inr [Fin (3 / 2)]
   \<and> map_sum id (map n_index)
        (IdealSurface_propagate (ideal_lens (Fin 1)) ray_axis (Fin 1) (Fin (3 / 2)))
        = Inr [Fin 1]
   \<and> map_sum id (map n_index)
        (IdealSurface_propagate (ideal_lens (Fin (1 / 4))) ray_axis (Fin 1) (Fin (3 / 2)))
        = Inr [Fin (3 / 2), Fin 1]"
proof -
  have hit: "intersection_cy (ideal_lens R) ray_axis = Inr (Vec (Fin 0) (Fin 0) (Fin 0))" for R
    by (simp add: concrete_defs model_defs)
  have valid: "\<not> no_hit (Vec (Fin 0) (Fin 0) (Fin 0))"
    by (simp add: no_hit_def)
  have rz: "\<not> deq (v2 (direction ray_axis)) (Fin 0)"
    by (simp add: ray_axis_def source_ray_def)
  have R: "ideal_reflectivity_function (ideal_lens R) (wavelength ray_axis) = R" for R
    by (simp add: ideal_lens_def)
  show ?thesis
    using hit [of "Fin 0"]
      C6_child_count [OF hit valid rz R, of "Fin 0" "Fin 1" "Fin (3 / 2)"]
      C6_child_count [OF hit valid rz R, of "Fin 1" "Fin 1" "Fin (3 / 2)"]
      C6_child_count [OF hit valid rz R, of "Fin (1 / 4)" "Fin 1" "Fin (3 / 2)"]
    by (auto simp add: dgt_def)
qed

subsection \<open>C7\<close>

text \<open>
  C7 at a reflectivity that is not a number. The intersection is valid and the
  z-component of the direction is not zero; the reflectivity is outside \<open>[0, 1]\<close>, and
  \<open>IdealSurface.propagate\<close> raises nothing: both comparisons of its range test are false,
  and it returns two children whose intensities are not numbers. (For every other
  reflectivity the range test does what the specification says: lemma
  \<open>propagate_value_error\<close>.)
\<close>

theorem C7_nan_reflectivity:
  "ideal_reflectivity_function (ideal_lens NaN) (wavelength ray_axis) = NaN
   \<and> intersection_cy (ideal_lens NaN) ray_axis = Inr (Vec (Fin 0) (Fin 0) (Fin 0))
   \<and> \<not> no_hit (Vec (Fin 0) (Fin 0) (Fin 0))
   \<and> \<not> deq (v2 (direction ray_axis)) (Fin 0)
   \<and> map_sum id (map intensity)
        (IdealSurface_propagate (ideal_lens NaN) ray_axis (Fin 1) (Fin (3 / 2)))
        = Inr [NaN, NaN]"
  by (simp add: eval_defs)

subsection \<open>C8\<close>

text \<open>
  C8. For every incident ray whose direction has a zero z-component,
  \<open>IdealSurface.propagate\<close> returns the empty list. For every ray at all, neither the
  intersection nor the propagation ends in \<open>ZeroDivisionError\<close>: the two divisions are
  reached only with a divisor that is not zero.
\<close>

theorem C8_parallel_ray:
  "(deq (v2 (direction ri)) (Fin 0) \<longrightarrow> IdealSurface_propagate s ri ni nr = Inr [])
   \<and> IdealSurface_calculate_intersection ri \<noteq> Inl ZeroDivisionError
   \<and> IdealSurface_propagate s ri ni nr \<noteq> Inl ZeroDivisionError"
proof -
  obtain p where hit: "intersection_cy s ri = Inr p"
    using intersection_cy_total by blast
  have a: "IdealSurface_propagate s ri ni nr = Inr []" if "deq (v2 (direction ri)) (Fin 0)"
  proof -
    have "no_hit p"
      using that valid_intersection_dz [OF hit] by (cases "no_hit p") auto
    then show ?thesis by (rule propagate_no_hit [OF hit])
  qed
  have b: "IdealSurface_calculate_intersection ri \<noteq> Inl ZeroDivisionError"
    using calculate_intersection_total [of ri] by auto
  have c: "IdealSurface_propagate s ri ni nr \<noteq> Inl ZeroDivisionError"
  proof (cases "no_hit p")
    case True
    then show ?thesis using propagate_no_hit [OF hit] by simp
  next
    case False
    note dz = valid_intersection_dz [OF hit False]
    have nan: "\<not> (isnan (v0 p) \<or> isnan (v1 p) \<or> isnan (v2 p))"
      using False by (simp add: no_hit_def)
    show ?thesis
      using hit nan dz focal_scale [OF dz, of s]
      by (simp add: IdealSurface_propagate_def Let_def)
  qed
  from a b c show ?thesis by blast
qed

theorem C8_witness:
  "deq (v2 (direction ray_parallel)) (Fin 0)
   \<and> IdealSurface_propagate (ideal_lens (Fin (1 / 4))) ray_parallel (Fin 1) (Fin (3 / 2)) = Inr []
   \<and> IdealSurface_calculate_intersection ray_parallel = Inr (Vec NaN NaN NaN)"
proof -
  have rz: "deq (v2 (direction ray_parallel)) (Fin 0)"
    by (simp add: ray_parallel_def source_ray_def)
  have miss: "IdealSurface_calculate_intersection ray_parallel = Inr (Vec NaN NaN NaN)"
    by (simp add: concrete_defs model_defs)
  show ?thesis
    using rz miss
      C8_parallel_ray [of ray_parallel "ideal_lens (Fin (1 / 4))" "Fin 1" "Fin (3 / 2)"]
    by simp
qed

subsection \<open>C9\<close>

text \<open>
  The wording of C9 in the specification, "a generation counter exactly one greater than
  the incident ray's", fails at the largest counter: the children of a ray of generation
  \<open>2147483647\<close> have the generation \<open>-2147483648\<close>, from the stop and from the ideal surface
  alike.
\<close>

theorem C9_counterexample:
  "sint (parent_cnt (ray_of_generation 2147483647)) = 2147483647
   \<and> map sint (map parent_cnt
        (OpticalStop_propagate plane_z0 full_stop (ray_of_generation 2147483647) (Fin 1) (Fin 1)))
        = [- 2147483648]
   \<and> map_sum id (map sint \<circ> map parent_cnt)
        (IdealSurface_propagate (ideal_lens (Fin 0)) (ray_of_generation 2147483647)
           (Fin 1) (Fin 1))
        = Inr [- 2147483648]"
  by (simp add: eval_defs)

text \<open>
  C9, as the code has it. For every incident ray whose generation counter is below the
  largest \<open>int\<close>, \<open>2^31 - 1\<close>, every child ray returned by \<open>IdealSurface.propagate\<close> and by
  \<open>OpticalStop.propagate\<close> has a generation counter exactly one greater than the incident
  ray's, hence strictly greater.
\<close>

theorem C9_generation:
  assumes "sint (parent_cnt ri) < 2 ^ 31 - 1"
  shows "(\<forall>rs. IdealSurface_propagate s ri ni nr = Inr rs \<longrightarrow>
            (\<forall>c \<in> set rs. sint (parent_cnt c) = sint (parent_cnt ri) + 1
                          \<and> sint (parent_cnt ri) < sint (parent_cnt c)))
       \<and> (\<forall>c \<in> set (OpticalStop_propagate plane st ri ni nr).
            sint (parent_cnt c) = sint (parent_cnt ri) + 1
          \<and> sint (parent_cnt ri) < sint (parent_cnt c))"
proof -
  note succ = sint_succ [OF assms]
  have a: "sint (parent_cnt c) = sint (parent_cnt ri) + 1 \<and> sint (parent_cnt ri) < sint (parent_cnt c)"
    if "IdealSurface_propagate s ri ni nr = Inr rs" "c \<in> set rs" for rs c
    using ideal_children_generation [OF that] succ by simp
  have b: "sint (parent_cnt c) = sint (parent_cnt ri) + 1 \<and> sint (parent_cnt ri) < sint (parent_cnt c)"
    if "c \<in> set (OpticalStop_propagate plane st ri ni nr)" for c
    using that succ by (simp add: OpticalStop_propagate_def fast_init_def)
  from a b show ?thesis by blast
qed

theorem C9_witness:
  "sint (parent_cnt ray_axis) < 2 ^ 31 - 1
   \<and> map_sum id (map sint \<circ> map parent_cnt)
       (IdealSurface_propagate (ideal_lens (Fin (1 / 4))) ray_axis (Fin 1) (Fin (3 / 2)))
       = Inr [sint (parent_cnt ray_axis) + 1, sint (parent_cnt ray_axis) + 1]
   \<and> map sint (map parent_cnt
       (OpticalStop_propagate plane_z0 diaphragm ray_axis (Fin 1) (Fin 1)))
       = [sint (parent_cnt ray_axis) + 1]"
proof -
  have g: "sint (parent_cnt ray_axis) < 2 ^ 31 - 1"
    by (simp add: ray_axis_def source_ray_def)
  have hit: "intersection_cy (ideal_lens (Fin (1 / 4))) ray_axis
               = Inr (Vec (Fin 0) (Fin 0) (Fin 0))"
    by (simp add: concrete_defs model_defs)
  have valid: "\<not> no_hit (Vec (Fin 0) (Fin 0) (Fin 0))"
    by (simp add: no_hit_def)
  have R: "ideal_reflectivity_function (ideal_lens (Fin (1 / 4))) (wavelength ray_axis)
             = Fin (1 / 4)" "(0::real) < 1 / 4" "(1 / 4 :: real) < 1"
    by (simp_all add: ideal_lens_def)
  obtain t r where tr:
    "IdealSurface_propagate (ideal_lens (Fin (1 / 4))) ray_axis (Fin 1) (Fin (3 / 2)) = Inr [t, r]"
    using beam_split_children [OF hit valid R, of "Fin 1" "Fin (3 / 2)"] by blast
  obtain c where c: "OpticalStop_propagate plane_z0 diaphragm ray_axis (Fin 1) (Fin 1) = [c]"
    by (simp add: OpticalStop_propagate_def)
  show ?thesis
    using g
      C9_generation [OF g, of "ideal_lens (Fin (1 / 4))" "Fin 1" "Fin (3 / 2)" plane_z0 diaphragm]
      C9_generation [OF g, of "ideal_lens (Fin (1 / 4))" "Fin 1" "Fin 1" plane_z0 diaphragm]
    by (simp add: tr c)
qed

subsection \<open>C10\<close>

text \<open>
  C10. With \<open>ap_shape = None\<close>, \<open>OpticalStop._calculate_intersection\<close> returns the very
  point of the inherited \<open>Plane._calculate_intersection\<close>. With an aperture shape it
  returns that point unless the point lies inside the shape, and the sentinel then.
\<close>

theorem C10_stop_intersection:
  "(ap_shape s = None \<longrightarrow> OpticalStop_calculate_intersection plane s ri = plane ri)
   \<and> (\<forall>hole. ap_shape s = Some hole \<longrightarrow>
        OpticalStop_calculate_intersection plane s ri
          = (if hole (plane ri) then assign_nan_to_vector3d else plane ri))"
  by (simp add: OpticalStop_calculate_intersection_def)

theorem C10_witness:
  "ap_shape full_stop = None
   \<and> OpticalStop_calculate_intersection plane_z0 full_stop ray_axis = plane_z0 ray_axis
   \<and> ap_shape diaphragm = Some (Circular 15)
   \<and> Circular 15 (plane_z0 ray_axis) \<and> \<not> Circular 15 (plane_z0 ray_rim)
   \<and> OpticalStop_calculate_intersection plane_z0 diaphragm ray_axis = Vec NaN NaN NaN
   \<and> OpticalStop_calculate_intersection plane_z0 diaphragm ray_rim
        = Vec (Fin 20) (Fin 0) (Fin 0)"
proof -
  have a: "ap_shape full_stop = None" and b: "ap_shape diaphragm = Some (Circular 15)"
    by (simp_all add: full_stop_def diaphragm_def)
  have axis: "plane_z0 ray_axis = Vec (Fin 0) (Fin 0) (Fin 0)"
    and rim: "plane_z0 ray_rim = Vec (Fin 20) (Fin 0) (Fin 0)"
    by (simp_all add: concrete_defs model_defs)
  have inside: "Circular 15 (plane_z0 ray_axis)" and outside: "\<not> Circular 15 (plane_z0 ray_rim)"
    unfolding axis rim by (simp_all add: Circular_def squaredNorm_def)
  show ?thesis
    using a b inside outside rim
      C10_stop_intersection [of full_stop plane_z0 ray_axis]
      C10_stop_intersection [of diaphragm plane_z0 ray_axis]
      C10_stop_intersection [of diaphragm plane_z0 ray_rim]
    by (simp add: assign_nan_to_vector3d_def)
qed

end
